theory Spec2Isabelle
  imports Main "HOL-Library.Sublist"
begin

section \<open>Provenance: signing and verifying chart archives\<close>

text \<open>
  A shallow embedding of \<^verbatim>\<open>pkg/provenance/sign.go\<close>. Go byte slices and strings are
  \<^typ>\<open>string\<close>; a Go map is a partial function, except the identity map of an OpenPGP
  entity, which the code iterates over: it is the list of its keys in the order of that
  iteration. Each function returns, next to its Go results, the list of the file-system,
  hashing and cryptographic steps it performed, in order.
\<close>

subsection \<open>Errors, files and events\<close>

type_synonym path = string

datatype error =
    ENOENT path                          \<comment> \<open>no such file or directory\<close>
  | EACCES path                          \<comment> \<open>permission denied\<close>
  | EISDIR path                          \<comment> \<open>read of a directory\<close>
  | EIO path                             \<comment> \<open>a read that fails part-way\<close>
  | LibError string                      \<comment> \<open>an error of chartutil, yaml, clearsign or openpgp\<close>
  | PrivateKeyNotFound                   \<comment> \<open>"private key not found"\<close>
  | CannotSignDirectory                  \<comment> \<open>"cannot sign a directory"\<close>
  | CannotBeDirectory path               \<comment> \<open>"%s cannot be a directory"\<close>
  | FailedToDecodeSignature error        \<comment> \<open>"failed to decode signature: %s"\<close>
  | SignatureBlockNotFound               \<comment> \<open>"signature block not found"\<close>
  | NoSHAForFile string                  \<comment> \<open>"provenance does not contain a SHA for a file named %q"\<close>
  | SumDoesNotMatch string string string \<comment> \<open>"sha256 sum does not match for %s: %q != %q"\<close>
  | TooFewParts                          \<comment> \<open>"message block must have at least two parts"\<close>
  | MoreThanOneKey string                \<comment> \<open>"more than one key contain the id %q"\<close>

text \<open>
  A regular file is described by whether it can be opened, the bytes its reads deliver,
  and the error (if any) that ends the reading instead of end-of-file.
\<close>

datatype inode = Directory | Regular bool string "error option"

type_synonym filesystem = "path \<rightharpoonup> inode"

datatype event =
    EvStat path
  | EvOpen path
  | EvHash path
  | EvLoadChart path
  | EvSign
  | EvDecodeSignature
  | EvCheckSignature
  | EvReadKeyRing

text \<open>The steps that hash or do cryptographic work.\<close>

fun heavy :: "event \<Rightarrow> bool" where
  "heavy (EvStat p) = False"
| "heavy (EvOpen p) = False"
| "heavy (EvLoadChart p) = False"
| "heavy (EvHash p) = True"
| "heavy EvSign = True"
| "heavy EvDecodeSignature = True"
| "heavy EvCheckSignature = True"
| "heavy EvReadKeyRing = True"

text \<open>A Go call either returns or panics (a nil pointer dereference).\<close>

datatype 'a outcome = Panic | Return 'a

definition os_Stat :: "filesystem \<Rightarrow> path \<Rightarrow> error + bool" where
  \<comment> \<open>the result is \<open>fi.IsDir()\<close>\<close>
  "os_Stat fs p =
     (case fs p of
        None \<Rightarrow> Inl (ENOENT p)
      | Some Directory \<Rightarrow> Inr True
      | Some (Regular ok bs re) \<Rightarrow> Inr False)"

definition os_Open :: "filesystem \<Rightarrow> path \<Rightarrow> error + (string \<times> error option)" where
  \<comment> \<open>the open file: what reading it to the end delivers, and the error that ended it\<close>
  "os_Open fs p =
     (case fs p of
        None \<Rightarrow> Inl (ENOENT p)
      | Some Directory \<Rightarrow> Inr ([], Some (EISDIR p))
      | Some (Regular ok bs re) \<Rightarrow> if ok then Inr (bs, re) else Inl (EACCES p))"

definition ioutil_ReadFile :: "filesystem \<Rightarrow> path \<Rightarrow> error + string" where
  "ioutil_ReadFile fs p =
     (case os_Open fs p of
        Inl e \<Rightarrow> Inl e
      | Inr (bs, Some e) \<Rightarrow> Inl e
      | Inr (bs, None) \<Rightarrow> Inr bs)"

subsection \<open>Standard-library helpers\<close>

definition hexdigit :: "nat \<Rightarrow> char" where
  "hexdigit n = ''0123456789abcdef'' ! (n mod 16)"

definition EncodeToString :: "string \<Rightarrow> string" where
  \<comment> \<open>\<open>hex.EncodeToString\<close>: two lowercase digits for each byte\<close>
  "EncodeToString bs =
     concat (map (\<lambda>c. [hexdigit ((of_char c :: nat) div 16), hexdigit ((of_char c :: nat) mod 16)]) bs)"

definition slash :: char where
  "slash = CHR ''/''"

definition Base :: "path \<Rightarrow> string" where
  \<comment> \<open>\<open>filepath.Base\<close> with \<open>/\<close> as the separator\<close>
  "Base p =
     (if p = [] then ''.''
      else let stripped = rev (dropWhile (\<lambda>c. c = slash) (rev p));
               last_elem = rev (takeWhile (\<lambda>c. c \<noteq> slash) (rev stripped))
           in if last_elem = [] then [slash] else last_elem)"

fun Contains :: "string \<Rightarrow> string \<Rightarrow> bool" where
  \<comment> \<open>\<open>strings.Contains s substr\<close>\<close>
  "Contains [] sub = (sub = [])"
| "Contains (c # s) sub = (prefix sub (c # s) \<or> Contains s sub)"

text \<open>
  \<open>bytes.Split\<close> for a non-empty separator: cut at the first occurrence, then go on
  after it. The second argument collects, reversed, the bytes of the current part.
\<close>

fun split_from :: "string \<Rightarrow> string \<Rightarrow> string \<Rightarrow> string list" where
  "split_from sep acc [] = [rev acc]"
| "split_from sep acc (c # cs) =
     (if sep \<noteq> [] \<and> prefix sep (c # cs)
      then rev acc # split_from sep [] (drop (length sep - 1) cs)
      else split_from sep (c # acc) cs)"

definition bytes_Split :: "string \<Rightarrow> string \<Rightarrow> string list" where
  "bytes_Split s sep = split_from sep [] s"

subsection \<open>Data model\<close>

record SumCollection =
  Files :: "string \<rightharpoonup> string"
  Images :: "string \<rightharpoonup> string"

record ('pub, 'priv) Entity =
  PrimaryKey :: 'pub
  PrivateKey :: "'priv option"
  Identities :: "string list"

record ('pub, 'priv) Verification =
  SignedBy :: "('pub, 'priv) Entity option"
  FileHash :: string

record ('pub, 'priv) Signatory =
  Entity :: "('pub, 'priv) Entity option"
  KeyRing :: "('pub, 'priv) Entity list"

datatype hash_id = SHA256_id | SHA512_id

record Config =
  DefaultHash :: hash_id

definition defaultPGPConfig :: Config where
  "defaultPGPConfig = \<lparr>DefaultHash = SHA512_id\<rparr>"

record 'sg Block =
  Plaintext :: string
  Bytes :: string
  ArmoredSignature :: 'sg

text \<open>
  What \<open>clearsign.Encode\<close>, the copy into its writer and the writer's \<open>Close\<close> do for
  one message: the error of \<open>Encode\<close>, the text in the output buffer at the end, the error
  of the copy and the error of \<open>Close\<close>.
\<close>

record signing =
  encode_err :: "error option"
  written :: string
  copy_err :: "error option"
  close_err :: "error option"

text \<open>
  The libraries the package calls are parameters of the model: SHA-256, the chart
  loader (of which only the chart's metadata is used), the serialiser, clearsign and
  OpenPGP.
\<close>

record ('md, 'pub, 'priv, 'sg) library =
  SHA256 :: "string \<Rightarrow> string"
  LoadFile :: "filesystem \<Rightarrow> path \<Rightarrow> error + 'md"
  MarshalMetadata :: "'md \<Rightarrow> error + string"
  MarshalSums :: "SumCollection \<Rightarrow> error + string"
  UnmarshalMetadata :: "string \<Rightarrow> error + 'md"
  UnmarshalSums :: "string \<Rightarrow> error + SumCollection"
  clearsign_Encode :: "'priv \<Rightarrow> Config \<Rightarrow> string \<Rightarrow> signing"
  clearsign_Decode :: "string \<Rightarrow> 'sg Block option"
  CheckDetachedSignature ::
    "('pub, 'priv) Entity list \<Rightarrow> string \<Rightarrow> 'sg \<Rightarrow> error + ('pub, 'priv) Entity"
  ReadKeyRing :: "string \<times> error option \<Rightarrow> error + ('pub, 'priv) Entity list"

subsection \<open>The content hasher and the message block\<close>

definition separator :: string where
  "separator = [CHR 0x0A, CHR ''.'', CHR ''.'', CHR ''.'', CHR 0x0A]"

definition sumArchive ::
  "('md, 'pub, 'priv, 'sg) library \<Rightarrow> filesystem \<Rightarrow> path \<Rightarrow> event list \<times> (error + string)" where
  \<comment> \<open>the result of \<open>io.Copy\<close> is not looked at\<close>
  "sumArchive L fs filename =
     (case os_Open fs filename of
        Inl e \<Rightarrow> ([EvOpen filename], Inl e)
      | Inr (bs, re) \<Rightarrow>
          ([EvOpen filename, EvHash filename], Inr (EncodeToString (SHA256 L bs))))"

definition messageBlock ::
  "('md, 'pub, 'priv, 'sg) library \<Rightarrow> filesystem \<Rightarrow> path \<Rightarrow> event list \<times> (error + string)" where
  "messageBlock L fs chartpath =
     (case sumArchive L fs chartpath of
        (t, Inl e) \<Rightarrow> (t, Inl e)
      | (t, Inr chash) \<Rightarrow>
          let base = Base chartpath;
              sums = \<lparr>Files = [base \<mapsto> ''sha256:'' @ chash], Images = Map.empty\<rparr>;
              t' = t @ [EvLoadChart chartpath]
          in (case LoadFile L fs chartpath of
               Inl e \<Rightarrow> (t', Inl e)
             | Inr md \<Rightarrow>
                 (case MarshalMetadata L md of
                    Inl e \<Rightarrow> (t', Inl e)
                  | Inr data \<Rightarrow>
                      let b = data @ separator
                      in (case MarshalSums L sums of
                           Inl e \<Rightarrow> (t', Inl e)
                         | Inr data' \<Rightarrow> (t', Inr (b @ data'))))))"

definition parseMessageBlock ::
  "('md, 'pub, 'priv, 'sg) library \<Rightarrow> string \<Rightarrow> error + ('md \<times> SumCollection)" where
  \<comment> \<open>on an error the Go function also returns the objects decoded so far; its caller drops them\<close>
  "parseMessageBlock L data =
     (let parts = bytes_Split data separator
      in if length parts < 2 then Inl TooFewParts
         else case UnmarshalMetadata L (parts ! 0) of
                Inl e \<Rightarrow> Inl e
              | Inr md \<Rightarrow>
                  (case UnmarshalSums L (parts ! 1) of
                     Inl e \<Rightarrow> Inl e
                   | Inr sc \<Rightarrow> Inr (md, sc)))"

subsection \<open>Signing\<close>

definition ClearSign ::
  "('md, 'pub, 'priv, 'sg) library \<Rightarrow> filesystem \<Rightarrow> ('pub, 'priv) Signatory \<Rightarrow> path
     \<Rightarrow> event list \<times> (string \<times> error option) outcome" where
  "ClearSign L fs s chartpath =
     (case Entity s of
        None \<Rightarrow> ([], Panic)
      | Some ent \<Rightarrow>
          (case PrivateKey ent of
             None \<Rightarrow> ([], Return ([], Some PrivateKeyNotFound))
           | Some key \<Rightarrow>
               (case os_Stat fs chartpath of
                  Inl e \<Rightarrow> ([EvStat chartpath], Return ([], Some e))
                | Inr isdir \<Rightarrow>
                    if isdir then ([EvStat chartpath], Return ([], Some CannotSignDirectory))
                    else (case messageBlock L fs chartpath of
                            (t, Inl e) \<Rightarrow> (EvStat chartpath # t, Return ([], None))
                          | (t, Inr b) \<Rightarrow>
                              let w = clearsign_Encode L key defaultPGPConfig b;
                                  t' = EvStat chartpath # t @ [EvSign]
                              in (case encode_err w of
                                   Some e \<Rightarrow> (t', Return ([], Some e))
                                 | None \<Rightarrow> (t', Return (written w, copy_err w)))))))"

subsection \<open>Verifying\<close>

definition decodeSignature ::
  "('md, 'pub, 'priv, 'sg) library \<Rightarrow> filesystem \<Rightarrow> path \<Rightarrow> event list \<times> (error + 'sg Block)" where
  "decodeSignature L fs filename =
     (case ioutil_ReadFile fs filename of
        Inl e \<Rightarrow> ([EvOpen filename], Inl e)
      | Inr data \<Rightarrow>
          (case clearsign_Decode L data of
             None \<Rightarrow> ([EvOpen filename, EvDecodeSignature], Inl SignatureBlockNotFound)
           | Some block \<Rightarrow> ([EvOpen filename, EvDecodeSignature], Inr block)))"

definition verifySignature ::
  "('md, 'pub, 'priv, 'sg) library \<Rightarrow> ('pub, 'priv) Signatory \<Rightarrow> 'sg Block
     \<Rightarrow> error + ('pub, 'priv) Entity" where
  "verifySignature L s block =
     CheckDetachedSignature L (KeyRing s) (Bytes block) (ArmoredSignature block)"

text \<open>The loop of \<open>Verify\<close> over the two file names: the first one that fails ends it.\<close>

fun stat_files :: "filesystem \<Rightarrow> path list \<Rightarrow> event list \<times> error option" where
  "stat_files fs [] = ([], None)"
| "stat_files fs (fname # rest) =
     (case os_Stat fs fname of
        Inl e \<Rightarrow> ([EvStat fname], Some e)
      | Inr isdir \<Rightarrow>
          if isdir then ([EvStat fname], Some (CannotBeDirectory fname))
          else (case stat_files fs rest of (t, r) \<Rightarrow> (EvStat fname # t, r)))"

definition Verify ::
  "('md, 'pub, 'priv, 'sg) library \<Rightarrow> filesystem \<Rightarrow> ('pub, 'priv) Signatory \<Rightarrow> path \<Rightarrow> path
     \<Rightarrow> event list \<times> ('pub, 'priv) Verification \<times> error option" where
  "Verify L fs s chartpath sigpath =
     (let ver = \<lparr>SignedBy = None, FileHash = []\<rparr>
      in (case stat_files fs [chartpath, sigpath] of
           (t0, Some e) \<Rightarrow> (t0, ver, Some e)
         | (t0, None) \<Rightarrow>
             (case decodeSignature L fs sigpath of
                (t1, Inl e) \<Rightarrow> (t0 @ t1, ver, Some (FailedToDecodeSignature e))
              | (t1, Inr sig) \<Rightarrow>
                  (case verifySignature L s sig of
                     Inl e \<Rightarrow> (t0 @ t1 @ [EvCheckSignature], ver, Some e)
                   | Inr signer \<Rightarrow>
                       let ver = ver\<lparr>SignedBy := Some signer\<rparr>
                       in (case sumArchive L fs chartpath of
                            (t2, Inl e) \<Rightarrow> (t0 @ t1 @ [EvCheckSignature] @ t2, ver, Some e)
                          | (t2, Inr hexsum) \<Rightarrow>
                              let t = t0 @ t1 @ [EvCheckSignature] @ t2
                              in (case parseMessageBlock L (Plaintext sig) of
                                   Inl e \<Rightarrow> (t, ver, Some e)
                                 | Inr (md, sums) \<Rightarrow>
                                     let sum' = ''sha256:'' @ hexsum;
                                         basename = Base chartpath
                                     in (case Files sums basename of
                                          None \<Rightarrow> (t, ver, Some (NoSHAForFile basename))
                                        | Some sha \<Rightarrow>
                                            if sha \<noteq> sum'
                                            then (t, ver, Some (SumDoesNotMatch basename sha sum'))
                                            else (t, ver\<lparr>FileHash := sum'\<rparr>, None))))))))"

subsection \<open>Resolving the signing identity\<close>

definition loadKeyRing ::
  "('md, 'pub, 'priv, 'sg) library \<Rightarrow> filesystem \<Rightarrow> path
     \<Rightarrow> event list \<times> (error + ('pub, 'priv) Entity list)" where
  "loadKeyRing L fs ringpath =
     (case os_Open fs ringpath of
        Inl e \<Rightarrow> ([EvOpen ringpath], Inl e)
      | Inr f \<Rightarrow> ([EvOpen ringpath, EvReadKeyRing], ReadKeyRing L f))"

text \<open>
  The two nested loops of \<open>NewFromKeyring\<close>. Their state is the candidate and the flag
  \<open>vague\<close>; an exact match leaves both loops at once.
\<close>

datatype 'e scan = Exact 'e | Scanned "'e option" bool

fun scan_identities ::
  "string \<Rightarrow> ('pub, 'priv) Entity \<Rightarrow> string list \<Rightarrow> ('pub, 'priv) Entity option \<Rightarrow> bool
     \<Rightarrow> ('pub, 'priv) Entity scan" where
  "scan_identities ident e [] candidate vague = Scanned candidate vague"
| "scan_identities ident e (n # ns) candidate vague =
     (if n = ident then Exact e
      else if Contains n ident
           then scan_identities ident e ns (Some e) (if candidate \<noteq> None then True else vague)
           else scan_identities ident e ns candidate vague)"

fun scan_ring ::
  "string \<Rightarrow> ('pub, 'priv) Entity list \<Rightarrow> ('pub, 'priv) Entity option \<Rightarrow> bool
     \<Rightarrow> ('pub, 'priv) Entity scan" where
  "scan_ring ident [] candidate vague = Scanned candidate vague"
| "scan_ring ident (e # es) candidate vague =
     (case scan_identities ident e (Identities e) candidate vague of
        Exact e' \<Rightarrow> Exact e'
      | Scanned candidate' vague' \<Rightarrow> scan_ring ident es candidate' vague')"

text \<open>
  How many labels of the key ring contain the name, each label of each entity counted.
\<close>

definition label_matches :: "string \<Rightarrow> ('pub, 'priv) Entity list \<Rightarrow> nat" where
  "label_matches ident ring =
     length (filter (\<lambda>n. Contains n ident) (concat (map Identities ring)))"

definition NewFromKeyring ::
  "('md, 'pub, 'priv, 'sg) library \<Rightarrow> filesystem \<Rightarrow> path \<Rightarrow> string
     \<Rightarrow> event list \<times> ('pub, 'priv) Signatory option \<times> error option" where
  "NewFromKeyring L fs keyringfile ident =
     (case loadKeyRing L fs keyringfile of
        (t, Inl e) \<Rightarrow> (t, None, Some e)
      | (t, Inr ring) \<Rightarrow>
          let s = \<lparr>Entity = None, KeyRing = ring\<rparr>
          in if ident = [] then (t, Some s, None)
             else (case scan_ring ident ring None False of
                     Exact e \<Rightarrow> (t, Some (s\<lparr>Entity := Some e\<rparr>), None)
                   | Scanned candidate vague \<Rightarrow>
                       if vague then (t, Some s, Some (MoreThanOneKey ident))
                       else (t, Some (s\<lparr>Entity := candidate\<rparr>), None)))"

subsection \<open>A small instance\<close>

text \<open>
  A concrete library and file system on which the model can be run. Metadata is a
  string, keys are numbers, a signature is the number of the key that made it, and a
  key ring file lists its entities separated by \<open>;\<close>, the labels of one entity
  separated by \<open>,\<close>. Private key 0 stands for a passphrase-protected key, which
  \<open>clearsign.Encode\<close> refuses; private key 3 for a key with which the signature cannot
  be made, so that the writer's \<open>Close\<close> fails after the text has been written. An empty
  file is not a chart archive.
\<close>

definition demo_ReadKeyRing :: "string \<times> error option \<Rightarrow> error + (nat, nat) Entity list" where
  "demo_ReadKeyRing f =
     (case f of
        (bs, Some e) \<Rightarrow> Inl e
      | (bs, None) \<Rightarrow>
          Inr (map (\<lambda>(i, labels). \<lparr>PrimaryKey = i, PrivateKey = Some i,
                                   Identities = bytes_Split labels '',''\<rparr>)
                 (enumerate 1 (bytes_Split bs '';''))))"

definition demo_clearsign_Encode :: "nat \<Rightarrow> Config \<Rightarrow> string \<Rightarrow> signing" where
  "demo_clearsign_Encode key cfg msg =
     (if key = 0
      then \<lparr>encode_err = Some (LibError ''signing key is encrypted''), written = [],
            copy_err = None, close_err = None\<rparr>
      else if key = 3
      then \<lparr>encode_err = None, written = ''UNSIGNED:'' @ msg, copy_err = None,
            close_err = Some (LibError ''unsupported public key algorithm'')\<rparr>
      else \<lparr>encode_err = None,
            written = ''SIGNED'' @ replicate key (CHR ''+'') @ '':'' @ msg,
            copy_err = None, close_err = None\<rparr>)"

definition demo_library :: "(string, nat, nat, nat) library" where
  "demo_library =
     \<lparr>SHA256 = take 2,
      LoadFile = (\<lambda>fs p. case fs p of
                    Some (Regular True bs None) \<Rightarrow>
                      if bs = [] then Inl (LibError ''not a chart archive'')
                      else Inr (take 5 bs)
                  | _ \<Rightarrow> Inl (LibError ''not a chart archive'')),
      MarshalMetadata = (\<lambda>md. Inr (''name: '' @ md @ [CHR 0x0A])),
      MarshalSums = (\<lambda>sc. case Files sc ''c.tgz'' of
                      None \<Rightarrow> Inr (''files: {}'' @ [CHR 0x0A])
                    | Some v \<Rightarrow> Inr (''files: '' @ v @ [CHR 0x0A])),
      UnmarshalMetadata = (\<lambda>s. if prefix ''name: '' s then Inr (butlast (drop 6 s))
                                else Inl (LibError ''cannot unmarshal'')),
      UnmarshalSums = (\<lambda>s. if s = ''files: {}'' @ [CHR 0x0A]
                            then Inr \<lparr>Files = Map.empty, Images = Map.empty\<rparr>
                            else if prefix ''files: '' s
                            then Inr \<lparr>Files = [''c.tgz'' \<mapsto> butlast (drop 7 s)],
                                      Images = Map.empty\<rparr>
                            else Inl (LibError ''cannot unmarshal'')),
      clearsign_Encode = demo_clearsign_Encode,
      clearsign_Decode = (\<lambda>s. if prefix ''SIGNED'' s
                               then let rest = drop 6 s;
                                        key = length (takeWhile (\<lambda>c. c = CHR ''+'') rest);
                                        msg = drop (key + 1) rest
                                    in Some \<lparr>Plaintext = msg, Bytes = msg, ArmoredSignature = key\<rparr>
                               else None),
      CheckDetachedSignature = (\<lambda>ring signed sg.
                                  case find (\<lambda>e. PrimaryKey e = sg) ring of
                                    None \<Rightarrow> Inl (LibError ''unknown issuer'')
                                  | Some e \<Rightarrow> Inr e),
      ReadKeyRing = demo_ReadKeyRing\<rparr>"

definition alice :: "(nat, nat) Entity" where
  "alice = \<lparr>PrimaryKey = 1, PrivateKey = Some 1, Identities = [''alice <alice@example.com>'']\<rparr>"

definition bob :: "(nat, nat) Entity" where
  "bob = \<lparr>PrimaryKey = 2, PrivateKey = None, Identities = [''bob <bob@example.com>'']\<rparr>"

definition alice_pub :: "(nat, nat) Entity" where
  "alice_pub = \<lparr>PrimaryKey = 1, PrivateKey = None, Identities = [''alice <alice@example.com>'']\<rparr>"

definition carol :: "(nat, nat) Entity" where
  "carol = \<lparr>PrimaryKey = 3, PrivateKey = Some 3, Identities = [''carol <carol@example.com>'']\<rparr>"

definition dave :: "(nat, nat) Entity" where
  "dave = \<lparr>PrimaryKey = 4, PrivateKey = Some 0, Identities = [''dave <dave@example.com>'']\<rparr>"

definition files_signatory :: "(nat, nat) Signatory" where
  \<comment> \<open>as \<open>NewFromFiles\<close> builds it: the key pair from one file, public keys from the other\<close>
  "files_signatory = \<lparr>Entity = Some alice, KeyRing = [alice_pub, bob]\<rparr>"

definition carol_signatory :: "(nat, nat) Signatory" where
  "carol_signatory = \<lparr>Entity = Some carol, KeyRing = [alice, bob, carol]\<rparr>"

definition demo_signatory :: "(nat, nat) Entity option \<Rightarrow> (nat, nat) Signatory" where
  "demo_signatory e = \<lparr>Entity = e, KeyRing = [alice, bob]\<rparr>"

definition demo_block :: string where
  "demo_block = ''name: nginx'' @ [CHR 0x0A] @ separator @ ''files: sha256:6e67'' @ [CHR 0x0A]"

definition demo_sums :: SumCollection where
  "demo_sums = \<lparr>Files = [''c.tgz'' \<mapsto> ''sha256:6e67''], Images = Map.empty\<rparr>"

definition demo_fs :: filesystem where
  "demo_fs =
     [''charts'' \<mapsto> Directory,
      ''charts/c.tgz'' \<mapsto> Regular True ''nginx-0.1.0'' None,
      ''charts/c.tgz.prov'' \<mapsto> Regular True (''SIGNED+:'' @ demo_block) None,
      ''charts/locked.tgz'' \<mapsto> Regular False ''nginx-0.1.0'' None,
      ''charts/torn.tgz'' \<mapsto> Regular True ''ngi'' (Some (EIO ''charts/torn.tgz'')),
      ''charts/d.tgz'' \<mapsto> Regular True ''redis-1.0.0'' None,
      ''charts/d.tgz.prov'' \<mapsto> Regular True (''SIGNED+:'' @ demo_block) None,
      ''mirror/c.tgz'' \<mapsto> Regular True ''tampered'' None,
      ''mirror/c.tgz.prov'' \<mapsto> Regular True (''SIGNED+:'' @ demo_block) None,
      ''unsigned/c.tgz.prov'' \<mapsto> Regular True (''UNSIGNED:'' @ demo_block) None,
      ''charts/empty.tgz'' \<mapsto> Regular True [] None,
      ''charts/empty.tgz.prov'' \<mapsto> Regular True [] None,
      ''keys/one.gpg'' \<mapsto> Regular True ''foo one,foo two'' None,
      ''keys/team.gpg'' \<mapsto>
         Regular True ''alice <alice@work>,alice <alice@home>;bob <bob@work>'' None]"

section \<open>Properties\<close>

subsection \<open>Splitting at the separator\<close>

lemma split_from_no_separator:
  "sep \<noteq> [] \<Longrightarrow> \<not> Contains b sep \<Longrightarrow> split_from sep acc b = [rev acc @ b]"
  by (induction b arbitrary: acc) auto

lemma split_from_at_separator:
  "sep \<noteq> [] \<Longrightarrow> split_from sep acc (sep @ b) = rev acc # split_from sep [] b"
  by (cases sep) auto

lemma separator_not_straddling:
  assumes "\<not> prefix separator (x # xs)" and "last (x # xs) = CHR 0x0A"
  shows "\<not> prefix separator ((x # xs) @ separator @ b)"
  using assms
  apply (cases xs)
   apply (simp add: separator_def)
  subgoal for a1 l1
    apply (cases l1)
     apply (simp add: separator_def)
    subgoal for a2 l2
      apply (cases l2)
       apply (simp add: separator_def)
      subgoal for a3 l3
        apply (cases l3)
         apply (simp add: separator_def)
        subgoal for a4 l4
          apply (simp add: separator_def)
          done
        done
      done
    done
  done

lemma split_from_first_separator:
  "\<not> Contains a separator \<Longrightarrow> a = [] \<or> last a = CHR 0x0A \<Longrightarrow>
   split_from separator acc (a @ separator @ b) = (rev acc @ a) # split_from separator [] b"
proof (induction a arbitrary: acc)
  case Nil
  then show ?case using split_from_at_separator [of separator acc b] by (simp add: separator_def)
next
  case (Cons x xs)
  have np: "\<not> prefix separator (x # xs)" and nc: "\<not> Contains xs separator"
    using Cons.prems(1) by auto
  have l: "last (x # xs) = CHR 0x0A" using Cons.prems(2) by simp
  have ns: "\<not> prefix separator ((x # xs) @ separator @ b)"
    by (rule separator_not_straddling [OF np l])
  have xs: "xs = [] \<or> last xs = CHR 0x0A" using l by (cases xs) auto
  have "split_from separator acc ((x # xs) @ separator @ b) =
        split_from separator (x # acc) (xs @ separator @ b)"
    using ns by simp
  also have "\<dots> = (rev (x # acc) @ xs) # split_from separator [] b"
    by (rule Cons.IH [OF nc xs])
  finally show ?case by simp
qed

lemma bytes_Split_block:
  assumes "\<not> Contains a separator" and "a = [] \<or> last a = CHR 0x0A" and "\<not> Contains b separator"
  shows "bytes_Split (a @ separator @ b) separator = [a, b]"
proof -
  have "separator \<noteq> []" by (simp add: separator_def)
  then have "split_from separator [] b = [b]"
    using split_from_no_separator [of separator b "[]"] assms(3) by simp
  then show ?thesis
    using split_from_first_separator [OF assms(1,2), of "[]" b] by (simp add: bytes_Split_def)
qed

subsection \<open>Single steps\<close>

lemma os_Stat_regular: "fs p = Some (Regular ok bs re) \<Longrightarrow> os_Stat fs p = Inr False"
  by (simp add: os_Stat_def)

lemma os_Stat_directory: "fs p = Some Directory \<Longrightarrow> os_Stat fs p = Inr True"
  by (simp add: os_Stat_def)

lemma sumArchive_regular:
  "fs p = Some (Regular True bs re) \<Longrightarrow>
   sumArchive L fs p = ([EvOpen p, EvHash p], Inr (EncodeToString (SHA256 L bs)))"
  by (simp add: sumArchive_def os_Open_def)

lemma messageBlock_ok:
  assumes "sumArchive L fs p = (t, Inr chash)"
      and "LoadFile L fs p = Inr md"
      and "MarshalMetadata L md = Inr ymd"
      and "MarshalSums L \<lparr>Files = [Base p \<mapsto> ''sha256:'' @ chash], Images = Map.empty\<rparr> = Inr ysums"
  shows "messageBlock L fs p = (t @ [EvLoadChart p], Inr (ymd @ separator @ ysums))"
  using assms by (simp add: messageBlock_def)

lemma parseMessageBlock_ok:
  assumes "\<not> Contains ymd separator" and "ymd = [] \<or> last ymd = CHR 0x0A"
      and "\<not> Contains ysums separator"
      and "UnmarshalMetadata L ymd = Inr md" and "UnmarshalSums L ysums = Inr sums"
  shows "parseMessageBlock L (ymd @ separator @ ysums) = Inr (md, sums)"
  using assms(4,5) by (simp add: parseMessageBlock_def bytes_Split_block [OF assms(1,2,3)])

lemma decodeSignature_ok:
  "fs p = Some (Regular True sg None) \<Longrightarrow> clearsign_Decode L sg = Some block \<Longrightarrow>
   decodeSignature L fs p = ([EvOpen p, EvDecodeSignature], Inr block)"
  by (simp add: decodeSignature_def ioutil_ReadFile_def os_Open_def)

lemma stat_files_two_regular:
  "os_Stat fs c = Inr False \<Longrightarrow> os_Stat fs p = Inr False \<Longrightarrow>
   stat_files fs [c, p] = ([EvStat c, EvStat p], None)"
  by simp

lemma Verify_after_checks:
  assumes "stat_files fs [chartpath, sigpath] = (t0, None)"
      and "decodeSignature L fs sigpath = (t1, Inr block)"
      and "verifySignature L s block = Inr signer"
      and "sumArchive L fs chartpath = (t2, Inr hexsum)"
      and "parseMessageBlock L (Plaintext block) = Inr (md, sums)"
  shows "Verify L fs s chartpath sigpath =
     (case Files sums (Base chartpath) of
        None \<Rightarrow>
          (t0 @ t1 @ [EvCheckSignature] @ t2,
           \<lparr>SignedBy = Some signer, FileHash = []\<rparr>,
           Some (NoSHAForFile (Base chartpath)))
      | Some sha \<Rightarrow>
          if sha = ''sha256:'' @ hexsum
          then (t0 @ t1 @ [EvCheckSignature] @ t2,
                \<lparr>SignedBy = Some signer, FileHash = ''sha256:'' @ hexsum\<rparr>, None)
          else (t0 @ t1 @ [EvCheckSignature] @ t2,
                \<lparr>SignedBy = Some signer, FileHash = []\<rparr>,
                Some (SumDoesNotMatch (Base chartpath) sha (''sha256:'' @ hexsum))))"
  using assms by (simp add: Verify_def Let_def split: option.splits)

lemma stat_files_two:
  assumes "stat_files fs [c, p] = (t0, r)"
  shows "(r = None \<longrightarrow> os_Stat fs c = Inr False \<and> os_Stat fs p = Inr False \<and> t0 = [EvStat c, EvStat p])
       \<and> (r \<noteq> None \<longrightarrow> \<not> list_ex heavy t0)"
  using assms by (auto split: sum.splits if_splits)

lemma Verify_stat_failure:
  "stat_files fs [chartpath, sigpath] = (t0, Some e) \<Longrightarrow>
   Verify L fs s chartpath sigpath = (t0, \<lparr>SignedBy = None, FileHash = []\<rparr>, Some e)"
  by (simp add: Verify_def)

lemma Verify_trace_prefix:
  "stat_files fs [chartpath, sigpath] = (t0, None) \<Longrightarrow>
   \<exists>t'. fst (Verify L fs s chartpath sigpath) = t0 @ t'"
  by (simp add: Verify_def Let_def split: prod.splits sum.splits option.splits)

subsection \<open>Scanning the key ring\<close>

lemma scan_identities_exact:
  "ident \<in> set ns \<Longrightarrow> scan_identities ident e ns candidate vague = Exact e"
  by (induction ns arbitrary: candidate vague) auto

lemma scan_identities_no_exact:
  "ident \<notin> set ns \<Longrightarrow>
   scan_identities ident e ns candidate vague =
     Scanned (if filter (\<lambda>n. Contains n ident) ns = [] then candidate else Some e)
             (vague \<or> 2 \<le> length (filter (\<lambda>n. Contains n ident) ns)
                    \<or> (1 \<le> length (filter (\<lambda>n. Contains n ident) ns) \<and> candidate \<noteq> None))"
proof (induction ns arbitrary: candidate vague)
  case Nil
  then show ?case by simp
next
  case (Cons n ns)
  then have ne: "n \<noteq> ident" and rest: "ident \<notin> set ns" by auto
  show ?case
  proof (cases "Contains n ident")
    case True
    then show ?thesis using ne Cons.IH [OF rest, of "Some e" "if candidate \<noteq> None then True else vague"]
      by (cases "filter (\<lambda>n. Contains n ident) ns") auto
  next
    case False
    then show ?thesis using ne Cons.IH [OF rest, of candidate vague] by simp
  qed
qed

lemma scan_ring_exact:
  "\<exists>e \<in> set ring. ident \<in> set (Identities e) \<Longrightarrow>
   \<exists>e \<in> set ring. ident \<in> set (Identities e) \<and> scan_ring ident ring candidate vague = Exact e"
proof (induction ring arbitrary: candidate vague)
  case Nil
  then show ?case by simp
next
  case (Cons e es)
  show ?case
  proof (cases "ident \<in> set (Identities e)")
    case True
    then show ?thesis by (simp add: scan_identities_exact)
  next
    case False
    then have "\<exists>e' \<in> set es. ident \<in> set (Identities e')" using Cons.prems by auto
    from Cons.IH [OF this] show ?thesis
      using False by (auto simp: scan_identities_no_exact)
  qed
qed

lemma scan_ring_no_exact:
  "\<forall>e \<in> set ring. ident \<notin> set (Identities e) \<Longrightarrow>
   \<exists>c. scan_ring ident ring candidate vague =
     Scanned c (vague \<or> 2 \<le> label_matches ident ring
                     \<or> (1 \<le> label_matches ident ring \<and> candidate \<noteq> None)) \<and>
       (label_matches ident ring = 0 \<longrightarrow> c = candidate) \<and>
       (c = None \<longrightarrow> candidate = None \<and> label_matches ident ring = 0)"
proof (induction ring arbitrary: candidate vague)
  case Nil
  then show ?case by (simp add: label_matches_def)
next
  case (Cons e es)
  let ?k = "length (filter (\<lambda>n. Contains n ident) (Identities e))"
  let ?c = "if filter (\<lambda>n. Contains n ident) (Identities e) = [] then candidate else Some e"
  let ?v = "vague \<or> 2 \<le> ?k \<or> (1 \<le> ?k \<and> candidate \<noteq> None)"
  have here: "ident \<notin> set (Identities e)" and rest: "\<forall>e' \<in> set es. ident \<notin> set (Identities e')"
    using Cons.prems by auto
  have step: "scan_ring ident (e # es) candidate vague = scan_ring ident es ?c ?v"
    by (simp add: scan_identities_no_exact [OF here])
  have sum: "label_matches ident (e # es) = ?k + label_matches ident es"
    by (simp add: label_matches_def)
  from Cons.IH [OF rest, of ?c ?v]
  obtain c where ih: "scan_ring ident es ?c ?v =
         Scanned c (?v \<or> 2 \<le> label_matches ident es \<or> (1 \<le> label_matches ident es \<and> ?c \<noteq> None)) \<and>
       (label_matches ident es = 0 \<longrightarrow> c = ?c) \<and>
       (c = None \<longrightarrow> ?c = None \<and> label_matches ident es = 0)" ..
  note c = conjunct1 [OF ih]
  note c0 = conjunct1 [OF conjunct2 [OF ih]]
  note cn = conjunct2 [OF conjunct2 [OF ih]]
  have k0: "?k = 0 \<longleftrightarrow> filter (\<lambda>n. Contains n ident) (Identities e) = []" by simp
  have flag: "(?v \<or> 2 \<le> label_matches ident es \<or> (1 \<le> label_matches ident es \<and> ?c \<noteq> None)) =
              (vague \<or> 2 \<le> label_matches ident (e # es)
                     \<or> (1 \<le> label_matches ident (e # es) \<and> candidate \<noteq> None))"
    unfolding sum by (cases "filter (\<lambda>n. Contains n ident) (Identities e)") auto
  show ?case
    unfolding step c flag using c0 cn k0 sum by (auto split: if_splits)
qed

text \<open>
  With the key ring loaded and a non-empty name: a label equal to the name selects an
  entity that carries it, without error. With no such label, the outcome depends only on
  how many labels contain the name: none leaves the signing identity unset without
  error, one selects its entity, and two or more give the error, whether or not they
  belong to the same entity.
\<close>

lemma NewFromKeyring_exact:
  assumes "loadKeyRing L fs keyringfile = (t, Inr ring)" and "ident \<noteq> []"
      and "\<exists>e \<in> set ring. ident \<in> set (Identities e)"
  shows "\<exists>e \<in> set ring. ident \<in> set (Identities e) \<and>
           NewFromKeyring L fs keyringfile ident = (t, Some \<lparr>Entity = Some e, KeyRing = ring\<rparr>, None)"
proof -
  obtain e where "e \<in> set ring" "ident \<in> set (Identities e)"
      "scan_ring ident ring None False = Exact e"
    using scan_ring_exact [OF assms(3), of None False] by blast
  then show ?thesis using assms(1,2) by (auto simp: NewFromKeyring_def)
qed

lemma NewFromKeyring_no_exact:
  assumes "loadKeyRing L fs keyringfile = (t, Inr ring)" and "ident \<noteq> []"
      and "\<forall>e \<in> set ring. ident \<notin> set (Identities e)"
  shows "(2 \<le> label_matches ident ring \<longrightarrow>
            NewFromKeyring L fs keyringfile ident =
              (t, Some \<lparr>Entity = None, KeyRing = ring\<rparr>, Some (MoreThanOneKey ident))) \<and>
         (label_matches ident ring = 0 \<longrightarrow>
            NewFromKeyring L fs keyringfile ident =
              (t, Some \<lparr>Entity = None, KeyRing = ring\<rparr>, None)) \<and>
         (label_matches ident ring = 1 \<longrightarrow>
            (\<exists>e. NewFromKeyring L fs keyringfile ident =
              (t, Some \<lparr>Entity = Some e, KeyRing = ring\<rparr>, None)))"
proof -
  obtain c where c: "scan_ring ident ring None False = Scanned c (2 \<le> label_matches ident ring)"
     and c0: "label_matches ident ring = 0 \<longrightarrow> c = None"
     and cn: "c = None \<longrightarrow> label_matches ident ring = 0"
    using scan_ring_no_exact [OF assms(3), of None False] by auto
  show ?thesis
    using assms(1,2) c c0 cn by (cases c) (auto simp: NewFromKeyring_def)
qed

subsection \<open>Signing and then verifying\<close>

text \<open>
  When nothing fails on the way, the round trip holds. Take an archive that is a readable
  regular file holding a loadable chart, and a Signatory whose signing identity has a
  private key. Suppose the serialiser reads back what it wrote, its outputs do not
  contain the separator and the serialised metadata ends with a newline, clearsign
  decodes the text it produced to the signed message, and OpenPGP finds a signer in the
  key ring. Then \<open>ClearSign\<close> returns the signed text without error, and \<open>Verify\<close> of
  the archive against that text succeeds with that signer and with \<open>FileHash\<close> equal to
  "sha256:" followed by the hex SHA-256 digest of the archive's bytes.
\<close>

lemma sign_verify_roundtrip:
  assumes archive: "fs chartpath = Some (Regular True bs None)"
      and chart: "LoadFile L fs chartpath = Inr md"
      and sums: "sums = \<lparr>Files = [Base chartpath \<mapsto> ''sha256:'' @ EncodeToString (SHA256 L bs)],
                         Images = Map.empty\<rparr>"
      and ymd: "MarshalMetadata L md = Inr ymd"
      and ysums: "MarshalSums L sums = Inr ysums"
      and back_md: "UnmarshalMetadata L ymd = Inr md'"
      and back_sums: "UnmarshalSums L ysums = Inr sums"
      and sep_md: "\<not> Contains ymd separator"
      and nl_md: "ymd = [] \<or> last ymd = CHR 0x0A"
      and sep_sums: "\<not> Contains ysums separator"
      and ent: "Entity s = Some ent"
      and key: "PrivateKey ent = Some key"
      and w: "w = clearsign_Encode L key defaultPGPConfig (ymd @ separator @ ysums)"
      and enc_ok: "encode_err w = None"
      and copy_ok: "copy_err w = None"
      and stored: "fs sigpath = Some (Regular True (written w) None)"
      and decode: "clearsign_Decode L (written w) = Some block"
      and plain: "Plaintext block = ymd @ separator @ ysums"
      and check: "CheckDetachedSignature L (KeyRing s) (Bytes block) (ArmoredSignature block) = Inr signer"
  shows "snd (ClearSign L fs s chartpath) = Return (written w, None) \<and>
         snd (Verify L fs s chartpath sigpath) =
           (\<lparr>SignedBy = Some signer, FileHash = ''sha256:'' @ EncodeToString (SHA256 L bs)\<rparr>, None)"
proof -
  let ?h = "EncodeToString (SHA256 L bs)"
  have sum: "sumArchive L fs chartpath = ([EvOpen chartpath, EvHash chartpath], Inr ?h)"
    using archive by (rule sumArchive_regular [of fs chartpath])
  have mb: "messageBlock L fs chartpath =
              ([EvOpen chartpath, EvHash chartpath] @ [EvLoadChart chartpath],
               Inr (ymd @ separator @ ysums))"
    using messageBlock_ok [of L fs chartpath _ _ md ymd ysums] sum chart ymd ysums sums by simp
  have st_c: "os_Stat fs chartpath = Inr False" using archive by (rule os_Stat_regular [of fs chartpath])
  have st_p: "os_Stat fs sigpath = Inr False" using stored by (rule os_Stat_regular [of fs sigpath])
  have sign: "snd (ClearSign L fs s chartpath) = Return (written w, None)"
    using ent key st_c mb w enc_ok copy_ok by (simp add: ClearSign_def Let_def)
  have stats: "stat_files fs [chartpath, sigpath] = ([EvStat chartpath, EvStat sigpath], None)"
    by (rule stat_files_two_regular [OF st_c st_p])
  have dec: "decodeSignature L fs sigpath = ([EvOpen sigpath, EvDecodeSignature], Inr block)"
    using stored decode by (rule decodeSignature_ok [of fs sigpath])
  have ver: "verifySignature L s block = Inr signer"
    using check by (simp add: verifySignature_def)
  have parse: "parseMessageBlock L (Plaintext block) = Inr (md', sums)"
    unfolding plain by (rule parseMessageBlock_ok [OF sep_md nl_md sep_sums back_md back_sums])
  have "Files sums (Base chartpath) = Some (''sha256:'' @ ?h)"
    by (simp add: sums)
  then have "snd (Verify L fs s chartpath sigpath) =
           (\<lparr>SignedBy = Some signer, FileHash = ''sha256:'' @ ?h\<rparr>, None)"
    using Verify_after_checks [OF stats dec ver sum parse] by simp
  with sign show ?thesis by simp
qed

text \<open>
  An instance with a key ring that holds public keys only: the signer reported is the
  entity of the key ring, not the signing identity with its private key.
\<close>

lemma sign_verify_roundtrip_public_ring:
  "snd (ClearSign demo_library demo_fs files_signatory ''charts/c.tgz'') =
     Return (''SIGNED+:'' @ demo_block, None) \<and>
   snd (Verify demo_library demo_fs files_signatory ''charts/c.tgz'' ''charts/c.tgz.prov'') =
     (\<lparr>SignedBy = Some alice_pub, FileHash = ''sha256:6e67''\<rparr>, None)"
proof -
  let ?sums = "\<lparr>Files = [Base ''charts/c.tgz'' \<mapsto> ''sha256:'' @ EncodeToString (SHA256 demo_library ''nginx-0.1.0'')],
                Images = Map.empty\<rparr>"
  let ?ymd = "''name: nginx'' @ [CHR 0x0A]"
  let ?ysums = "''files: sha256:6e67'' @ [CHR 0x0A]"
  let ?w = "clearsign_Encode demo_library 1 defaultPGPConfig (?ymd @ separator @ ?ysums)"
  let ?block = "\<lparr>Plaintext = demo_block, Bytes = demo_block, ArmoredSignature = 1::nat\<rparr>"
  have base: "Base ''charts/c.tgz'' = ''c.tgz''" by code_simp
  have sha: "SHA256 demo_library ''nginx-0.1.0'' = ''ng''" by (simp add: demo_library_def)
  have hex: "EncodeToString ''ng'' = ''6e67''" by code_simp
  have h1: "demo_fs ''charts/c.tgz'' = Some (Regular True ''nginx-0.1.0'' None)" by code_simp
  have h2: "LoadFile demo_library demo_fs ''charts/c.tgz'' = Inr ''nginx''" by code_simp
  have h4: "MarshalMetadata demo_library ''nginx'' = Inr ?ymd" by code_simp
  have h5: "MarshalSums demo_library ?sums = Inr ?ysums"
    by (simp add: base sha hex) (simp add: demo_library_def)
  have h6: "UnmarshalMetadata demo_library ?ymd = Inr ''nginx''" by code_simp
  have h7: "UnmarshalSums demo_library ?ysums = Inr ?sums"
    by (simp add: base sha hex) (simp add: demo_library_def)
  have h8: "\<not> Contains ?ymd separator" by code_simp
  have h9: "?ymd = [] \<or> last ?ymd = CHR 0x0A" by simp
  have h10: "\<not> Contains ?ysums separator" by code_simp
  have h11: "Entity files_signatory = Some alice" by (simp add: files_signatory_def)
  have h12: "PrivateKey alice = Some 1" by (simp add: alice_def)
  have h14: "encode_err ?w = None" by (simp add: demo_library_def demo_clearsign_Encode_def)
  have h15: "copy_err ?w = None" by (simp add: demo_library_def demo_clearsign_Encode_def)
  have wr: "written ?w = ''SIGNED+:'' @ demo_block"
    by (simp add: demo_library_def demo_clearsign_Encode_def demo_block_def)
  have h16: "demo_fs ''charts/c.tgz.prov'' = Some (Regular True (written ?w) None)"
    unfolding wr by (simp add: demo_fs_def)
  have h17: "clearsign_Decode demo_library (written ?w) = Some ?block"
    unfolding wr by (simp add: demo_library_def)
  have h18: "Plaintext ?block = ?ymd @ separator @ ?ysums" by (simp add: demo_block_def)
  have h19: "CheckDetachedSignature demo_library (KeyRing files_signatory)
               (Bytes ?block) (ArmoredSignature ?block) = Inr alice_pub"
    by (simp add: demo_library_def files_signatory_def alice_pub_def)
  show ?thesis
    using sign_verify_roundtrip [OF h1 h2 refl h4 h5 h6 h7 h8 h9 h10 h11 h12 refl h14 h15 h16 h17 h18 h19]
    unfolding wr sha hex by simp
qed

text \<open>
  C1. Verifying an archive against what signing it returned should succeed for every
  archive and every Signatory whose signing identity has a private key and whose key
  ring holds the matching public key. The code does otherwise where it drops an error
  on the signing path. With a well-formed archive and a private key with which the
  signature cannot be made, the writer's \<open>Close\<close> fails, its error is not looked at, and
  \<open>ClearSign\<close> returns the unsigned text with no error; with a file that is not a chart
  archive, \<open>messageBlock\<close> fails and \<open>ClearSign\<close> returns the empty text with no error.
  In both cases \<open>Verify\<close> of the archive against the text returned fails with
  "failed to decode signature: signature block not found".
\<close>

theorem ClearSign_result_not_verified:
  "Entity carol_signatory = Some carol \<and> PrivateKey carol = Some 3 \<and>
   find (\<lambda>e. PrimaryKey e = PrimaryKey carol) (KeyRing carol_signatory) = Some carol \<and>
   ClearSign demo_library demo_fs carol_signatory ''charts/c.tgz'' =
     ([EvStat ''charts/c.tgz'', EvOpen ''charts/c.tgz'', EvHash ''charts/c.tgz'',
       EvLoadChart ''charts/c.tgz'', EvSign],
      Return (''UNSIGNED:'' @ demo_block, None)) \<and>
   close_err (clearsign_Encode demo_library 3 defaultPGPConfig demo_block) =
     Some (LibError ''unsupported public key algorithm'') \<and>
   demo_fs ''unsigned/c.tgz.prov'' = Some (Regular True (''UNSIGNED:'' @ demo_block) None) \<and>
   Verify demo_library demo_fs carol_signatory ''charts/c.tgz'' ''unsigned/c.tgz.prov'' =
     ([EvStat ''charts/c.tgz'', EvStat ''unsigned/c.tgz.prov'', EvOpen ''unsigned/c.tgz.prov'',
       EvDecodeSignature],
      \<lparr>SignedBy = None, FileHash = []\<rparr>,
      Some (FailedToDecodeSignature SignatureBlockNotFound)) \<and>
   ClearSign demo_library demo_fs (demo_signatory (Some alice)) ''charts/empty.tgz'' =
     ([EvStat ''charts/empty.tgz'', EvOpen ''charts/empty.tgz'', EvHash ''charts/empty.tgz'',
       EvLoadChart ''charts/empty.tgz''],
      Return ([], None)) \<and>
   demo_fs ''charts/empty.tgz.prov'' = Some (Regular True [] None) \<and>
   Verify demo_library demo_fs (demo_signatory (Some alice))
          ''charts/empty.tgz'' ''charts/empty.tgz.prov'' =
     ([EvStat ''charts/empty.tgz'', EvStat ''charts/empty.tgz.prov'',
       EvOpen ''charts/empty.tgz.prov'', EvDecodeSignature],
      \<lparr>SignedBy = None, FileHash = []\<rparr>,
      Some (FailedToDecodeSignature SignatureBlockNotFound))"
  by code_simp

subsection \<open>Errors on the signing path\<close>

text \<open>
  C2. Every failure met while signing or hashing should reach the caller as an error.
  The code does otherwise: for an archive that passes the stat check but cannot be
  opened, \<open>sumArchive\<close> fails and \<open>ClearSign\<close> returns the empty text with no error;
  and for a file whose read breaks off, \<open>sumArchive\<close> returns the digest of the bytes
  read so far with no error.
\<close>

theorem ClearSign_discards_hash_error:
  "ClearSign demo_library demo_fs (demo_signatory (Some alice)) ''charts/locked.tgz'' =
     ([EvStat ''charts/locked.tgz'', EvOpen ''charts/locked.tgz''], Return ([], None)) \<and>
   sumArchive demo_library demo_fs ''charts/locked.tgz'' =
     ([EvOpen ''charts/locked.tgz''], Inl (EACCES ''charts/locked.tgz'')) \<and>
   sumArchive demo_library demo_fs ''charts/torn.tgz'' =
     ([EvOpen ''charts/torn.tgz'', EvHash ''charts/torn.tgz''], Inr ''6e67'')"
  by code_simp

subsection \<open>Resolving a name in the key ring\<close>

text \<open>
  C3. Several labels of one and the same entity that contain the name should not count
  as an ambiguity. The code counts them: for a key ring with a single entity labelled
  "foo one" and "foo two", the name "foo" gives the error "more than one key contain
  the id".
\<close>

theorem NewFromKeyring_one_key_two_labels:
  "NewFromKeyring demo_library demo_fs ''keys/one.gpg'' ''foo'' =
     ([EvOpen ''keys/one.gpg'', EvReadKeyRing],
      Some \<lparr>Entity = None,
            KeyRing = [\<lparr>PrimaryKey = 1, PrivateKey = Some 1,
                        Identities = [''foo one'', ''foo two'']\<rparr>]\<rparr>,
      Some (MoreThanOneKey ''foo''))"
  by code_simp

text \<open>
  C5. A name that equals no label and is contained in the labels of at most one entity
  should be resolved without error. The code fails for a key ring in which one entity
  has two labels containing "alice" and the other entity has none.
\<close>

theorem NewFromKeyring_single_match_error:
  "NewFromKeyring demo_library demo_fs ''keys/team.gpg'' ''alice'' =
     ([EvOpen ''keys/team.gpg'', EvReadKeyRing],
      Some \<lparr>Entity = None,
            KeyRing = [\<lparr>PrimaryKey = 1, PrivateKey = Some 1,
                        Identities = [''alice <alice@work>'', ''alice <alice@home>'']\<rparr>,
                       \<lparr>PrimaryKey = 2, PrivateKey = Some 2,
                        Identities = [''bob <bob@work>'']\<rparr>]\<rparr>,
      Some (MoreThanOneKey ''alice''))"
  by code_simp

subsection \<open>The checksum comparison of Verify\<close>

text \<open>
  C4. Once the two paths have passed the checks, the signature has been decoded and
  verified, the archive hashed and the message block parsed, \<open>Verify\<close> looks up the
  base name of the archive path in \<open>Files\<close>. A missing key gives the error
  "provenance does not contain a SHA"; a value different from "sha256:" followed by the
  recomputed hex digest gives the error "sha256 sum does not match"; an equal value
  gives a Verification with the authenticated signer and that digest string, and no
  error.
\<close>

theorem Verify_checksum_lookup:
  assumes "stat_files fs [chartpath, sigpath] = (t0, None)"
      and "decodeSignature L fs sigpath = (t1, Inr block)"
      and "verifySignature L s block = Inr signer"
      and "sumArchive L fs chartpath = (t2, Inr hexsum)"
      and "parseMessageBlock L (Plaintext block) = Inr (md, sums)"
  shows "(Files sums (Base chartpath) = None \<longrightarrow>
            Verify L fs s chartpath sigpath =
              (t0 @ t1 @ [EvCheckSignature] @ t2,
               \<lparr>SignedBy = Some signer, FileHash = []\<rparr>,
               Some (NoSHAForFile (Base chartpath)))) \<and>
         (\<forall>sha. Files sums (Base chartpath) = Some sha \<and> sha \<noteq> ''sha256:'' @ hexsum \<longrightarrow>
            Verify L fs s chartpath sigpath =
              (t0 @ t1 @ [EvCheckSignature] @ t2,
               \<lparr>SignedBy = Some signer, FileHash = []\<rparr>,
               Some (SumDoesNotMatch (Base chartpath) sha (''sha256:'' @ hexsum)))) \<and>
         (Files sums (Base chartpath) = Some (''sha256:'' @ hexsum) \<longrightarrow>
            Verify L fs s chartpath sigpath =
              (t0 @ t1 @ [EvCheckSignature] @ t2,
               \<lparr>SignedBy = Some signer, FileHash = ''sha256:'' @ hexsum\<rparr>, None))"
  using Verify_after_checks [OF assms] by simp

theorem Verify_checksum_lookup_witness:
  "Verify demo_library demo_fs (demo_signatory None) ''charts/d.tgz'' ''charts/d.tgz.prov'' =
     ([EvStat ''charts/d.tgz'', EvStat ''charts/d.tgz.prov'', EvOpen ''charts/d.tgz.prov'',
       EvDecodeSignature, EvCheckSignature, EvOpen ''charts/d.tgz'', EvHash ''charts/d.tgz''],
      \<lparr>SignedBy = Some alice, FileHash = []\<rparr>, Some (NoSHAForFile ''d.tgz'')) \<and>
   Verify demo_library demo_fs (demo_signatory None) ''charts/c.tgz'' ''charts/c.tgz.prov'' =
     ([EvStat ''charts/c.tgz'', EvStat ''charts/c.tgz.prov'', EvOpen ''charts/c.tgz.prov'',
       EvDecodeSignature, EvCheckSignature, EvOpen ''charts/c.tgz'', EvHash ''charts/c.tgz''],
      \<lparr>SignedBy = Some alice, FileHash = ''sha256:6e67''\<rparr>, None) \<and>
   Verify demo_library demo_fs (demo_signatory None) ''mirror/c.tgz'' ''mirror/c.tgz.prov'' =
     ([EvStat ''mirror/c.tgz'', EvStat ''mirror/c.tgz.prov'', EvOpen ''mirror/c.tgz.prov'',
       EvDecodeSignature, EvCheckSignature, EvOpen ''mirror/c.tgz'', EvHash ''mirror/c.tgz''],
      \<lparr>SignedBy = Some alice, FileHash = []\<rparr>,
      Some (SumDoesNotMatch ''c.tgz'' ''sha256:6e67'' ''sha256:7461''))"
proof -
  let ?block = "\<lparr>Plaintext = demo_block, Bytes = demo_block, ArmoredSignature = 1::nat\<rparr>"
  have m1: "stat_files demo_fs [''mirror/c.tgz'', ''mirror/c.tgz.prov''] =
              ([EvStat ''mirror/c.tgz'', EvStat ''mirror/c.tgz.prov''], None)" by code_simp
  have m2: "decodeSignature demo_library demo_fs ''mirror/c.tgz.prov'' =
              ([EvOpen ''mirror/c.tgz.prov'', EvDecodeSignature], Inr ?block)" by code_simp
  have m4: "sumArchive demo_library demo_fs ''mirror/c.tgz'' =
              ([EvOpen ''mirror/c.tgz'', EvHash ''mirror/c.tgz''], Inr ''7461'')" by code_simp
  have bm: "Base ''mirror/c.tgz'' = ''c.tgz''" by code_simp
  have fm: "Files demo_sums (Base ''mirror/c.tgz'') = Some ''sha256:6e67''"
    unfolding bm by (simp add: demo_sums_def)
  have d1: "stat_files demo_fs [''charts/d.tgz'', ''charts/d.tgz.prov''] =
              ([EvStat ''charts/d.tgz'', EvStat ''charts/d.tgz.prov''], None)" by code_simp
  have d2: "decodeSignature demo_library demo_fs ''charts/d.tgz.prov'' =
              ([EvOpen ''charts/d.tgz.prov'', EvDecodeSignature], Inr ?block)" by code_simp
  have c1: "stat_files demo_fs [''charts/c.tgz'', ''charts/c.tgz.prov''] =
              ([EvStat ''charts/c.tgz'', EvStat ''charts/c.tgz.prov''], None)" by code_simp
  have c2: "decodeSignature demo_library demo_fs ''charts/c.tgz.prov'' =
              ([EvOpen ''charts/c.tgz.prov'', EvDecodeSignature], Inr ?block)" by code_simp
  have v: "verifySignature demo_library (demo_signatory None) ?block = Inr alice" by code_simp
  have d4: "sumArchive demo_library demo_fs ''charts/d.tgz'' =
              ([EvOpen ''charts/d.tgz'', EvHash ''charts/d.tgz''], Inr ''7265'')" by code_simp
  have c4: "sumArchive demo_library demo_fs ''charts/c.tgz'' =
              ([EvOpen ''charts/c.tgz'', EvHash ''charts/c.tgz''], Inr ''6e67'')" by code_simp
  have p: "parseMessageBlock demo_library (Plaintext ?block) = Inr (''nginx'', demo_sums)"
  proof -
    let ?ymd = "''name: nginx'' @ [CHR 0x0A]"
    let ?ysums = "''files: sha256:6e67'' @ [CHR 0x0A]"
    have p1: "\<not> Contains ?ymd separator" by code_simp
    have p2: "?ymd = [] \<or> last ?ymd = CHR 0x0A" by simp
    have p3: "\<not> Contains ?ysums separator" by code_simp
    have p4: "UnmarshalMetadata demo_library ?ymd = Inr ''nginx''" by code_simp
    have p5: "UnmarshalSums demo_library ?ysums = Inr demo_sums"
      by (simp add: demo_library_def demo_sums_def)
    show ?thesis
      using parseMessageBlock_ok [OF p1 p2 p3 p4 p5] by (simp add: demo_block_def)
  qed
  have bd: "Base ''charts/d.tgz'' = ''d.tgz''" by code_simp
  have bc: "Base ''charts/c.tgz'' = ''c.tgz''" by code_simp
  have fd: "Files demo_sums (Base ''charts/d.tgz'') = None"
    unfolding bd by (simp add: demo_sums_def)
  have fc: "Files demo_sums (Base ''charts/c.tgz'') = Some (''sha256:'' @ ''6e67'')"
    unfolding bc by (simp add: demo_sums_def)
  show ?thesis
    using Verify_checksum_lookup [OF d1 d2 v d4 p] Verify_checksum_lookup [OF c1 c2 v c4 p]
          Verify_checksum_lookup [OF m1 m2 v m4 p] fd fc fm
    unfolding bd bm by simp
qed

subsection \<open>Directories\<close>

text \<open>
  C6, as amended. \<open>ClearSign\<close> by a Signatory whose signing identity has a private
  key, called with a directory, fails with "cannot sign a directory" having done nothing
  but stat the path. \<open>Verify\<close> with a directory as archive path fails with
  "cannot be a directory" after that one stat, and with a regular archive and a directory
  as attestation path it fails so after the two stats. Whenever \<open>Verify\<close> hashes or
  does cryptographic work, it has first stat'ed both paths, in that order, and found
  neither to be a directory.
\<close>

theorem directory_rejected:
  "(\<forall>ent key. Entity s = Some ent \<and> PrivateKey ent = Some key \<and> fs chartpath = Some Directory \<longrightarrow>
      ClearSign L fs s chartpath = ([EvStat chartpath], Return ([], Some CannotSignDirectory))) \<and>
   (fs chartpath = Some Directory \<longrightarrow>
      Verify L fs s chartpath sigpath =
        ([EvStat chartpath], \<lparr>SignedBy = None, FileHash = []\<rparr>,
         Some (CannotBeDirectory chartpath))) \<and>
   (os_Stat fs chartpath = Inr False \<and> fs sigpath = Some Directory \<longrightarrow>
      Verify L fs s chartpath sigpath =
        ([EvStat chartpath, EvStat sigpath], \<lparr>SignedBy = None, FileHash = []\<rparr>,
         Some (CannotBeDirectory sigpath))) \<and>
   (list_ex heavy (fst (Verify L fs s chartpath sigpath)) \<longrightarrow>
      os_Stat fs chartpath = Inr False \<and> os_Stat fs sigpath = Inr False \<and>
      take 2 (fst (Verify L fs s chartpath sigpath)) = [EvStat chartpath, EvStat sigpath])"
proof (intro conjI allI impI)
  fix ent key
  assume "Entity s = Some ent \<and> PrivateKey ent = Some key \<and> fs chartpath = Some Directory"
  then show "ClearSign L fs s chartpath = ([EvStat chartpath], Return ([], Some CannotSignDirectory))"
    by (simp add: ClearSign_def os_Stat_def)
next
  assume "fs chartpath = Some Directory"
  then have "stat_files fs [chartpath, sigpath] = ([EvStat chartpath], Some (CannotBeDirectory chartpath))"
    by (simp add: os_Stat_def)
  then show "Verify L fs s chartpath sigpath =
        ([EvStat chartpath], \<lparr>SignedBy = None, FileHash = []\<rparr>, Some (CannotBeDirectory chartpath))"
    by (rule Verify_stat_failure)
next
  assume "os_Stat fs chartpath = Inr False \<and> fs sigpath = Some Directory"
  then have "stat_files fs [chartpath, sigpath] =
               ([EvStat chartpath, EvStat sigpath], Some (CannotBeDirectory sigpath))"
    by (simp add: os_Stat_directory)
  then show "Verify L fs s chartpath sigpath =
        ([EvStat chartpath, EvStat sigpath], \<lparr>SignedBy = None, FileHash = []\<rparr>,
         Some (CannotBeDirectory sigpath))"
    by (rule Verify_stat_failure)
next
  assume hv: "list_ex heavy (fst (Verify L fs s chartpath sigpath))"
  obtain t0 r where st: "stat_files fs [chartpath, sigpath] = (t0, r)"
    by (cases "stat_files fs [chartpath, sigpath]")
  have r: "r = None"
  proof (cases r)
    case None
    then show ?thesis .
  next
    case (Some e)
    then have "fst (Verify L fs s chartpath sigpath) = t0"
      using Verify_stat_failure [of fs chartpath sigpath t0 e L s] st by simp
    moreover have "\<not> list_ex heavy t0"
      using stat_files_two [OF st] Some by simp
    ultimately show ?thesis using hv by simp
  qed
  then have ok: "os_Stat fs chartpath = Inr False" "os_Stat fs sigpath = Inr False"
            and t0: "t0 = [EvStat chartpath, EvStat sigpath]"
    using stat_files_two [OF st] by simp_all
  obtain t' where "fst (Verify L fs s chartpath sigpath) = t0 @ t'"
    using Verify_trace_prefix [of fs chartpath sigpath t0 L s] st r by auto
  then have "take 2 (fst (Verify L fs s chartpath sigpath)) = [EvStat chartpath, EvStat sigpath]"
    by (simp add: t0)
  with ok show "os_Stat fs chartpath = Inr False" "os_Stat fs sigpath = Inr False"
    "take 2 (fst (Verify L fs s chartpath sigpath)) = [EvStat chartpath, EvStat sigpath]"
    by simp_all
qed

theorem directory_rejected_witness:
  "ClearSign demo_library demo_fs (demo_signatory (Some alice)) ''charts'' =
     ([EvStat ''charts''], Return ([], Some CannotSignDirectory)) \<and>
   Verify demo_library demo_fs (demo_signatory None) ''charts'' ''charts/c.tgz.prov'' =
     ([EvStat ''charts''], \<lparr>SignedBy = None, FileHash = []\<rparr>, Some (CannotBeDirectory ''charts'')) \<and>
   Verify demo_library demo_fs (demo_signatory None) ''charts/c.tgz'' ''charts'' =
     ([EvStat ''charts/c.tgz'', EvStat ''charts''], \<lparr>SignedBy = None, FileHash = []\<rparr>,
      Some (CannotBeDirectory ''charts'')) \<and>
   take 2 (fst (Verify demo_library demo_fs (demo_signatory None) ''charts/c.tgz'' ''charts/c.tgz.prov'')) =
     [EvStat ''charts/c.tgz'', EvStat ''charts/c.tgz.prov'']"
proof -
  have e: "Entity (demo_signatory (Some alice)) = Some alice" by (simp add: demo_signatory_def)
  have k: "PrivateKey alice = Some 1" by (simp add: alice_def)
  have d: "demo_fs ''charts'' = Some Directory" by (simp add: demo_fs_def)
  have c: "os_Stat demo_fs ''charts/c.tgz'' = Inr False" by code_simp
  have h: "list_ex heavy
             (fst (Verify demo_library demo_fs (demo_signatory None) ''charts/c.tgz'' ''charts/c.tgz.prov''))"
    by code_simp
  show ?thesis
    using directory_rejected [of "demo_signatory (Some alice)" demo_fs "''charts''" demo_library "''charts/c.tgz.prov''"]
          directory_rejected [of "demo_signatory None" demo_fs "''charts''" demo_library "''charts/c.tgz.prov''"]
          directory_rejected [of "demo_signatory None" demo_fs "''charts/c.tgz''" demo_library "''charts''"]
          directory_rejected [of "demo_signatory None" demo_fs "''charts/c.tgz''" demo_library "''charts/c.tgz.prov''"]
          e k d c h
    by simp
qed

text \<open>
  The claim as stated fails: without a private key \<open>ClearSign\<close> reports
  "private key not found" for a directory and never looks at the path, and \<open>Verify\<close>
  with a directory as attestation path reports the missing archive first.
\<close>

theorem directory_without_key_counterexample:
  "demo_fs ''charts'' = Some Directory \<and>
   ClearSign demo_library demo_fs (demo_signatory (Some bob)) ''charts'' =
     ([], Return ([], Some PrivateKeyNotFound)) \<and>
   Verify demo_library demo_fs (demo_signatory None) ''charts/missing.tgz'' ''charts'' =
     ([EvStat ''charts/missing.tgz''], \<lparr>SignedBy = None, FileHash = []\<rparr>,
      Some (ENOENT ''charts/missing.tgz''))"
  by code_simp

subsection \<open>The Verification returned on failure\<close>

text \<open>
  C9, as amended. Whenever \<open>Verify\<close> returns an error, \<open>FileHash\<close> is empty.
  \<open>SignedBy\<close> is unset when the failure is in the path checks, in decoding the
  signature or in verifying it; when the failure comes later (hashing, parsing the
  message block, the checksum lookup or comparison), \<open>SignedBy\<close> is the
  authenticated signer.
\<close>

theorem Verify_failure_fields:
  assumes "Verify L fs s chartpath sigpath = (t, ver, Some e)"
  shows "FileHash ver = [] \<and>
         SignedBy ver =
           (case stat_files fs [chartpath, sigpath] of
              (t0, Some e0) \<Rightarrow> None
            | (t0, None) \<Rightarrow>
                (case decodeSignature L fs sigpath of
                   (t1, Inl e1) \<Rightarrow> None
                 | (t1, Inr block) \<Rightarrow>
                     (case verifySignature L s block of
                        Inl e2 \<Rightarrow> None
                      | Inr signer \<Rightarrow> Some signer)))"
  using assms
  by (auto simp: Verify_def Let_def split: prod.splits sum.splits option.splits if_splits)

theorem Verify_failure_fields_witness:
  "FileHash (fst (snd (Verify demo_library demo_fs (demo_signatory None)
                         ''mirror/c.tgz'' ''mirror/c.tgz.prov''))) = [] \<and>
   SignedBy (fst (snd (Verify demo_library demo_fs (demo_signatory None)
                         ''mirror/c.tgz'' ''mirror/c.tgz.prov''))) = Some alice \<and>
   SignedBy (fst (snd (Verify demo_library demo_fs (demo_signatory None)
                         ''charts/c.tgz'' ''charts''))) = None"
proof -
  have v: "Verify demo_library demo_fs (demo_signatory None) ''mirror/c.tgz'' ''mirror/c.tgz.prov'' =
     ([EvStat ''mirror/c.tgz'', EvStat ''mirror/c.tgz.prov'', EvOpen ''mirror/c.tgz.prov'',
       EvDecodeSignature, EvCheckSignature, EvOpen ''mirror/c.tgz'', EvHash ''mirror/c.tgz''],
      \<lparr>SignedBy = Some alice, FileHash = []\<rparr>,
      Some (SumDoesNotMatch ''c.tgz'' ''sha256:6e67'' ''sha256:7461''))"
    by code_simp
  have d: "Verify demo_library demo_fs (demo_signatory None) ''charts/c.tgz'' ''charts'' =
     ([EvStat ''charts/c.tgz'', EvStat ''charts''], \<lparr>SignedBy = None, FileHash = []\<rparr>,
      Some (CannotBeDirectory ''charts''))"
    by code_simp
  show ?thesis
    using Verify_failure_fields [OF v] Verify_failure_fields [OF d] by (simp add: v d)
qed

text \<open>
  The claim as stated fails: a correctly signed attestation without an entry for the
  archive makes \<open>Verify\<close> return an error together with the signer.
\<close>

theorem Verify_failure_signer_counterexample:
  "Verify demo_library demo_fs (demo_signatory None) ''charts/d.tgz'' ''charts/d.tgz.prov'' =
     ([EvStat ''charts/d.tgz'', EvStat ''charts/d.tgz.prov'', EvOpen ''charts/d.tgz.prov'',
       EvDecodeSignature, EvCheckSignature, EvOpen ''charts/d.tgz'', EvHash ''charts/d.tgz''],
      \<lparr>SignedBy = Some alice, FileHash = []\<rparr>, Some (NoSHAForFile ''d.tgz''))"
  by code_simp

subsection \<open>The message block\<close>

text \<open>
  C7. For an archive whose digest, chart metadata and serialisations are given, where
  the serialiser reads back what it wrote, neither serialised form contains the separator
  and the serialised metadata is empty or ends with a newline, \<open>messageBlock\<close> returns
  the two forms joined by the separator, and \<open>parseMessageBlock\<close> of that block
  returns the same metadata and the same sum collection.
\<close>

theorem messageBlock_parse_roundtrip:
  assumes sum: "sumArchive L fs chartpath = (t, Inr chash)"
      and chart: "LoadFile L fs chartpath = Inr md"
      and sums: "sums = \<lparr>Files = [Base chartpath \<mapsto> ''sha256:'' @ chash], Images = Map.empty\<rparr>"
      and ymd: "MarshalMetadata L md = Inr ymd"
      and ysums: "MarshalSums L sums = Inr ysums"
      and back_md: "UnmarshalMetadata L ymd = Inr md"
      and back_sums: "UnmarshalSums L ysums = Inr sums"
      and sep_md: "\<not> Contains ymd separator"
      and nl_md: "ymd = [] \<or> last ymd = CHR 0x0A"
      and sep_sums: "\<not> Contains ysums separator"
  shows "messageBlock L fs chartpath = (t @ [EvLoadChart chartpath], Inr (ymd @ separator @ ysums)) \<and>
         parseMessageBlock L (ymd @ separator @ ysums) = Inr (md, sums)"
proof
  show "messageBlock L fs chartpath = (t @ [EvLoadChart chartpath], Inr (ymd @ separator @ ysums))"
    using messageBlock_ok [of L fs chartpath t chash md ymd ysums] sum chart ymd ysums sums
    by simp
  show "parseMessageBlock L (ymd @ separator @ ysums) = Inr (md, sums)"
    by (rule parseMessageBlock_ok [OF sep_md nl_md sep_sums back_md back_sums])
qed

theorem messageBlock_parse_roundtrip_witness:
  "messageBlock demo_library demo_fs ''charts/c.tgz'' =
     ([EvOpen ''charts/c.tgz'', EvHash ''charts/c.tgz'', EvLoadChart ''charts/c.tgz''], Inr demo_block) \<and>
   parseMessageBlock demo_library demo_block =
     Inr (''nginx'', \<lparr>Files = [''c.tgz'' \<mapsto> ''sha256:6e67''], Images = Map.empty\<rparr>)"
proof -
  let ?sums = "\<lparr>Files = [Base ''charts/c.tgz'' \<mapsto> ''sha256:'' @ ''6e67''], Images = Map.empty\<rparr>"
  let ?ymd = "''name: nginx'' @ [CHR 0x0A]"
  let ?ysums = "''files: sha256:6e67'' @ [CHR 0x0A]"
  have base: "Base ''charts/c.tgz'' = ''c.tgz''" by code_simp
  have h1: "sumArchive demo_library demo_fs ''charts/c.tgz'' =
              ([EvOpen ''charts/c.tgz'', EvHash ''charts/c.tgz''], Inr ''6e67'')" by code_simp
  have h2: "LoadFile demo_library demo_fs ''charts/c.tgz'' = Inr ''nginx''" by code_simp
  have h4: "MarshalMetadata demo_library ''nginx'' = Inr ?ymd" by code_simp
  have h5: "MarshalSums demo_library ?sums = Inr ?ysums" by (simp add: base demo_library_def)
  have h6: "UnmarshalMetadata demo_library ?ymd = Inr ''nginx''" by code_simp
  have h7: "UnmarshalSums demo_library ?ysums = Inr ?sums" by (simp add: base demo_library_def)
  have h8: "\<not> Contains ?ymd separator" by code_simp
  have h9: "?ymd = [] \<or> last ?ymd = CHR 0x0A" by simp
  have h10: "\<not> Contains ?ysums separator" by code_simp
  show ?thesis
    using messageBlock_parse_roundtrip [OF h1 h2 refl h4 h5 h6 h7 h8 h9 h10]
    unfolding base by (simp add: demo_block_def)
qed

subsection \<open>Signing requires a signing identity with a private key\<close>

text \<open>
  C8, as amended. When the signing identity of the Signatory has no private key at all
  (the field is nil), \<open>ClearSign\<close> fails with "private key not found". It has then
  performed no step: the archive path has been neither examined nor read, whatever the
  file system holds. The check does not ask whether a key that is present can sign:
  with a private key present \<open>ClearSign\<close> goes on to stat the archive path, and when
  \<open>clearsign.Encode\<close> refuses the key, \<open>ClearSign\<close> returns the error of
  \<open>clearsign.Encode\<close>, after the archive has been hashed and loaded.
\<close>

theorem ClearSign_private_key_check:
  "(\<forall>ent. Entity s = Some ent \<and> PrivateKey ent = None \<longrightarrow>
      ClearSign L fs s chartpath = ([], Return ([], Some PrivateKeyNotFound))) \<and>
   (\<forall>ent key. Entity s = Some ent \<and> PrivateKey ent = Some key \<longrightarrow>
      (\<exists>t. fst (ClearSign L fs s chartpath) = EvStat chartpath # t)) \<and>
   (\<forall>ent key t b e.
      Entity s = Some ent \<and> PrivateKey ent = Some key \<and> os_Stat fs chartpath = Inr False \<and>
      messageBlock L fs chartpath = (t, Inr b) \<and>
      encode_err (clearsign_Encode L key defaultPGPConfig b) = Some e \<longrightarrow>
      ClearSign L fs s chartpath = (EvStat chartpath # t @ [EvSign], Return ([], Some e)))"
proof (intro conjI allI impI)
  fix ent
  assume "Entity s = Some ent \<and> PrivateKey ent = None"
  then show "ClearSign L fs s chartpath = ([], Return ([], Some PrivateKeyNotFound))"
    by (simp add: ClearSign_def)
next
  fix ent key
  assume "Entity s = Some ent \<and> PrivateKey ent = Some key"
  then show "\<exists>t. fst (ClearSign L fs s chartpath) = EvStat chartpath # t"
    by (simp add: ClearSign_def Let_def split: sum.splits prod.splits option.splits)
next
  fix ent key t b e
  assume "Entity s = Some ent \<and> PrivateKey ent = Some key \<and> os_Stat fs chartpath = Inr False \<and>
          messageBlock L fs chartpath = (t, Inr b) \<and>
          encode_err (clearsign_Encode L key defaultPGPConfig b) = Some e"
  then show "ClearSign L fs s chartpath = (EvStat chartpath # t @ [EvSign], Return ([], Some e))"
    by (simp add: ClearSign_def Let_def)
qed

theorem ClearSign_private_key_check_witness:
  "ClearSign demo_library demo_fs (demo_signatory (Some bob)) ''charts/c.tgz'' =
     ([], Return ([], Some PrivateKeyNotFound)) \<and>
   (\<exists>t. fst (ClearSign demo_library demo_fs (demo_signatory (Some alice)) ''charts/c.tgz'') =
          EvStat ''charts/c.tgz'' # t) \<and>
   ClearSign demo_library demo_fs (demo_signatory (Some dave)) ''charts/c.tgz'' =
     ([EvStat ''charts/c.tgz'', EvOpen ''charts/c.tgz'', EvHash ''charts/c.tgz'',
       EvLoadChart ''charts/c.tgz'', EvSign],
      Return ([], Some (LibError ''signing key is encrypted'')))"
proof -
  have eb: "Entity (demo_signatory (Some bob)) = Some bob" by (simp add: demo_signatory_def)
  have kb: "PrivateKey bob = None" by (simp add: bob_def)
  have ea: "Entity (demo_signatory (Some alice)) = Some alice" by (simp add: demo_signatory_def)
  have ka: "PrivateKey alice = Some 1" by (simp add: alice_def)
  have ed: "Entity (demo_signatory (Some dave)) = Some dave" by (simp add: demo_signatory_def)
  have kd: "PrivateKey dave = Some 0" by (simp add: dave_def)
  have st: "os_Stat demo_fs ''charts/c.tgz'' = Inr False" by code_simp
  have mb: "messageBlock demo_library demo_fs ''charts/c.tgz'' =
              ([EvOpen ''charts/c.tgz'', EvHash ''charts/c.tgz'', EvLoadChart ''charts/c.tgz''],
               Inr demo_block)" by code_simp
  have en: "encode_err (clearsign_Encode demo_library 0 defaultPGPConfig demo_block) =
              Some (LibError ''signing key is encrypted'')"
    by (simp add: demo_library_def demo_clearsign_Encode_def)
  show ?thesis
    using ClearSign_private_key_check [of "demo_signatory (Some bob)" demo_library demo_fs "''charts/c.tgz''"]
          ClearSign_private_key_check [of "demo_signatory (Some alice)" demo_library demo_fs "''charts/c.tgz''"]
          ClearSign_private_key_check [of "demo_signatory (Some dave)" demo_library demo_fs "''charts/c.tgz''"]
          eb kb ea ka ed kd st mb en
    by simp
qed

text \<open>
  The claim as stated fails: a passphrase-protected private key is present but not
  usable, and \<open>ClearSign\<close> reports the error of \<open>clearsign.Encode\<close>, not
  "private key not found", after it has stat'ed, hashed and loaded the archive; for a
  directory it reports "cannot sign a directory".
\<close>

theorem ClearSign_unusable_key_counterexample:
  "Entity (demo_signatory (Some dave)) = Some dave \<and> PrivateKey dave = Some 0 \<and>
   ClearSign demo_library demo_fs (demo_signatory (Some dave)) ''charts/c.tgz'' =
     ([EvStat ''charts/c.tgz'', EvOpen ''charts/c.tgz'', EvHash ''charts/c.tgz'',
       EvLoadChart ''charts/c.tgz'', EvSign],
      Return ([], Some (LibError ''signing key is encrypted''))) \<and>
   ClearSign demo_library demo_fs (demo_signatory (Some dave)) ''charts'' =
     ([EvStat ''charts''], Return ([], Some CannotSignDirectory))"
  by code_simp

text \<open>
  C10. \<open>ClearSign\<close> begins by reading the private key through the \<open>Entity\<close> field
  without testing that field: with no entity set the call panics, and the
  "private key not found" error is what a Signatory with an entity that lacks a private
  key gets.
\<close>

theorem ClearSign_nil_entity:
  "(Entity s = None \<longrightarrow> ClearSign L fs s chartpath = ([], Panic)) \<and>
   (\<forall>ent. Entity s = Some ent \<longrightarrow> PrivateKey ent = None \<longrightarrow>
      ClearSign L fs s chartpath = ([], Return ([], Some PrivateKeyNotFound)))"
  by (simp add: ClearSign_def)

theorem ClearSign_nil_entity_witness:
  "ClearSign demo_library demo_fs (demo_signatory None) ''charts/c.tgz'' = ([], Panic) \<and>
   ClearSign demo_library demo_fs (demo_signatory (Some bob)) ''charts'' =
     ([], Return ([], Some PrivateKeyNotFound))"
proof -
  have n: "Entity (demo_signatory None) = None" by (simp add: demo_signatory_def)
  have e: "Entity (demo_signatory (Some bob)) = Some bob" by (simp add: demo_signatory_def)
  have k: "PrivateKey bob = None" by (simp add: bob_def)
  show ?thesis
    using ClearSign_nil_entity [of "demo_signatory None" demo_library demo_fs "''charts/c.tgz''"]
          ClearSign_nil_entity [of "demo_signatory (Some bob)" demo_library demo_fs "''charts''"]
          n e k
    by simp
qed

end
